theory Spec2Isabelle
  imports Complex_Main "HOL-Library.Monad_Syntax"
begin

section \<open>The GLIF neuron of models/glif.h\<close>

text \<open>
  Conventions of the embedding.
  \<^item> A C++ member name ends in an underscore (\<^verbatim>\<open>V_m_\<close>), which cannot end an Isabelle
    name: the underscore is followed by a prime (\<open>V_m_'\<close>). Nothing else is renamed.
  \<^item> \<^verbatim>\<open>double\<close> is \<open>real\<close>: the ideal value, without rounding, NaN or infinities.
  \<^item> \<^verbatim>\<open>std::vector<double>\<close> is \<open>real list\<close>, \<^verbatim>\<open>std::string\<close> is \<open>string\<close>,
    \<^verbatim>\<open>long\<close> and \<^verbatim>\<open>nest::port\<close> are \<open>int\<close> (only compared with 0 here).
  \<^item> A \<^verbatim>\<open>throw\<close> is a value: \<open>Inl\<close> of a sum, or \<open>Some\<close> exception beside the
    object as the call left it.
  \<^item> A method that writes members takes the object and returns it updated.
\<close>

subsection \<open>Data\<close>

type_synonym model_type = string

record Parameters_' =
  V_reset_' :: real
  th_inf_' :: real
  G_' :: real
  E_L_' :: real
  C_m_' :: real
  t_ref_' :: real
  a_spike_' :: real
  b_spike_' :: real
  voltage_reset_a_' :: real
  voltage_reset_b_' :: real
  a_voltage_' :: real
  b_voltage_' :: real
  asc_init_' :: "real list"
  k_' :: "real list"
  asc_amps_' :: "real list"
  r_' :: "real list"
  V_dynamics_method_' :: string
  glif_model_' :: model_type

record State_' =
  V_m_' :: real
  ASCurrents_' :: "real list"
  ASCurrents_sum_' :: real
  threshold_' :: real
  I_' :: real

record Variables_' =
  t_ref_remaining_' :: real
  t_ref_total_' :: real
  last_spike_' :: real
  last_voltage_' :: real
  method_' :: int

text \<open>
  The ring buffers and the data logger are classes of the kernel; the logger is kept
  abstract (\<open>'l\<close>), a ring buffer is the list of its slots.
\<close>

record 'l Buffers_' =
  spikes_' :: "real list"
  currents_' :: "real list"
  logger_' :: 'l

text \<open>
  The neuron object: the members \<^verbatim>\<open>P_\<close>, \<^verbatim>\<open>S_\<close>, \<^verbatim>\<open>V_\<close>, \<^verbatim>\<open>B_\<close>, the name that
  \<^verbatim>\<open>get_name()\<close> returns, and the part of the object that belongs to the base class
  \<^verbatim>\<open>Archiving_Node\<close> (abstract, \<open>'a\<close>).
\<close>

record ('a, 'l) glif =
  get_name :: string
  archiving :: 'a
  P_' :: Parameters_'
  S_' :: State_'
  V_' :: Variables_'
  B_' :: "'l Buffers_'"

datatype error = BadProperty string | UnknownReceptorType int string

subsection \<open>The table of model variants\<close>

text \<open>
  \<^verbatim>\<open>std::map< std::string, long > model_type_lu\<close>, in the order of its initialiser.
  A lookup in the map is \<open>map_of model_type_lu\<close>.
\<close>

definition model_type_lu :: "(string \<times> int) list" where
  "model_type_lu =
    [(''lif'', 1), (''glif_lif'', 1), (''1'', 1),
     (''lif_r'', 2), (''glif_lif_r'', 2), (''2'', 2),
     (''lif_asc'', 3), (''glif_lif_asc'', 3), (''3'', 3),
     (''lif_r_asc'', 4), (''glif_lif_r_asc'', 4), (''4'', 4),
     (''lif_r_asc_a'', 5), (''glif_lif_r_asc_a'', 5), (''5'', 5)]"

subsection \<open>Accessors of the recordables\<close>

text \<open>
  \<^verbatim>\<open>operator[]\<close> of \<^verbatim>\<open>std::vector\<close> checks nothing: an index that is not below the
  size is an out-of-bounds read (undefined behaviour), written \<open>None\<close>.
\<close>

definition vector_at :: "'a list \<Rightarrow> nat \<Rightarrow> 'a option" where
  "vector_at xs i = (if i < length xs then Some (xs ! i) else None)"

definition get_V_m_' :: "('a, 'l) glif \<Rightarrow> real" where
  "get_V_m_' n = V_m_' (S_' n)"

definition get_AScurrents_sum_' :: "('a, 'l) glif \<Rightarrow> real option" where
  "get_AScurrents_sum_' n = vector_at (ASCurrents_' (S_' n)) 0"

subsection \<open>Connection tests\<close>





subsection \<open>set_status\<close>

text \<open>
  \<^verbatim>\<open>Parameters_::set\<close>, \<^verbatim>\<open>State_::set\<close> and \<^verbatim>\<open>Archiving_Node::set_status\<close> are declared
  in the header and defined elsewhere: they are parameters. Each is a \<^verbatim>\<open>void\<close> method
  that writes the object it is called on and may throw at any point, so it returns the
  exception, if any, and the object as it left it (possibly half written).
  \<^verbatim>\<open>Archiving_Node::set_status\<close> is a method of the base class and sees its part of the
  neuron only.
\<close>

definition set_status ::
  "('d \<Rightarrow> Parameters_' \<Rightarrow> 'e option \<times> Parameters_') \<Rightarrow>
   ('d \<Rightarrow> Parameters_' \<Rightarrow> State_' \<Rightarrow> 'e option \<times> State_') \<Rightarrow>
   ('d \<Rightarrow> 'a \<Rightarrow> 'e option \<times> 'a) \<Rightarrow>
   'd \<Rightarrow> ('a, 'l) glif \<Rightarrow> 'e option \<times> ('a, 'l) glif" where
  "set_status Parameters_set State_set Archiving_Node_set_status d n =
     (let ptmp = P_' n in
      case Parameters_set d ptmp of
        (Some e, ptmp) \<Rightarrow> (Some e, n)
      | (None, ptmp) \<Rightarrow>
          (let stmp = S_' n in
           case State_set d ptmp stmp of
             (Some e, stmp) \<Rightarrow> (Some e, n)
           | (None, stmp) \<Rightarrow>
               (case Archiving_Node_set_status d (archiving n) of
                  (Some e, a) \<Rightarrow> (Some e, n\<lparr>archiving := a\<rparr>)
                | (None, a) \<Rightarrow> (None, n\<lparr>archiving := a, P_' := ptmp, S_' := stmp\<rparr>))))"

section \<open>The parts of the neuron that the header only declares\<close>

text \<open>
  \<^verbatim>\<open>Parameters_::set\<close> and \<^verbatim>\<open>update\<close> are declared in the header and defined
  elsewhere. What follows is written from the specification of the model (its sections
  3, 4.1 and 4.2), over the records of the header.
\<close>

subsection \<open>Validation of a parameter set\<close>

text \<open>
  Modelled from the spec: the body of \<^verbatim>\<open>Parameters_::set\<close> is missing. Tokens are
  accepted without regard to case; \<open>to_lower\<close> maps an ASCII capital to its small
  letter and leaves every other character.
\<close>

definition to_lower :: "char \<Rightarrow> char" where
  "to_lower c =
     (case map_of (zip ''ABCDEFGHIJKLMNOPQRSTUVWXYZ'' ''abcdefghijklmnopqrstuvwxyz'') c of
        Some l \<Rightarrow> l
      | None \<Rightarrow> c)"

text \<open>
  Modelled from the spec: the body of \<^verbatim>\<open>Parameters_::set\<close> is missing. A token in small
  letters, as the keys of the tables are.
\<close>

definition lowercase :: "string \<Rightarrow> string" where
  "lowercase s = map to_lower s"

text \<open>
  Modelled from the spec: the body of \<^verbatim>\<open>Parameters_::set\<close> is missing. The tokens of
  the integration method are the two that the header documents for
  \<^verbatim>\<open>V_dynamics_method\<close>, with the flags that the header documents for
  \<^verbatim>\<open>Variables_::method_\<close> (0 linear forward Euler, 1 linear exact).
\<close>

definition V_dynamics_method_lu :: "(string \<times> int) list" where
  "V_dynamics_method_lu = [(''linear_forward_euler'', 0), (''linear_exact'', 1)]"

text \<open>
  Modelled from the spec: the body of \<^verbatim>\<open>Parameters_::set\<close> is missing. The four arrays
  of the after-spike currents have one entry per channel: all four have the same length.
\<close>

definition asc_lengths_agree :: "Parameters_' \<Rightarrow> bool" where
  "asc_lengths_agree c \<longleftrightarrow>
     length (k_' c) = length (asc_init_' c) \<and>
     length (asc_amps_' c) = length (asc_init_' c) \<and>
     length (r_' c) = length (asc_init_' c)"

text \<open>
  Modelled from the spec: the body of \<^verbatim>\<open>Parameters_::set\<close> is missing. The contract
  \<^verbatim>\<open>validate(raw_config) -> Parameters | ConfigError\<close>: the raw configuration is a
  record of the named values; it is rejected for a capacitance that is not positive, a
  negative conductance or refractory duration, arrays of after-spike currents of
  different lengths, or an unknown token of the model variant or of the integration
  method; otherwise it is returned as the snapshot. The configuration error is the
  exception \<^verbatim>\<open>BadProperty\<close> that \<^verbatim>\<open>set_status\<close> names. The function has no state among
  its arguments or results.
\<close>

definition validate :: "Parameters_' \<Rightarrow> error + Parameters_'" where
  "validate c =
     (if C_m_' c \<le> 0 then Inl (BadProperty ''membrane_capacitance must be positive'')
      else if G_' c < 0 then Inl (BadProperty ''membrane_conductance must not be negative'')
      else if t_ref_' c < 0 then Inl (BadProperty ''refractory_duration must not be negative'')
      else if \<not> asc_lengths_agree c
        then Inl (BadProperty ''after-spike-current arrays must have equal length'')
      else if map_of model_type_lu (lowercase (glif_model_' c)) = None
        then Inl (BadProperty ''unknown model_variant'')
      else if map_of V_dynamics_method_lu (lowercase (V_dynamics_method_' c)) = None
        then Inl (BadProperty ''unknown integration_method'')
      else Inr c)"

subsection \<open>One step of the voltage and of the threshold\<close>

text \<open>
  Modelled from the spec: the body of \<^verbatim>\<open>update\<close> is missing. The integration method
  is one of forward Euler and exact.
\<close>

datatype solver = ForwardEuler | Exact

text \<open>
  Modelled from the spec: the body of \<^verbatim>\<open>update\<close> is missing. A division whose divisor
  is zero has no real value (in floating point it gives NaN or an infinity): \<open>None\<close>.
\<close>

definition checked_div :: "real \<Rightarrow> real \<Rightarrow> real option" where
  "checked_div a b = (if b = 0 then None else Some (a / b))"

text \<open>
  Modelled from the spec: the body of \<^verbatim>\<open>update\<close> is missing. Forward Euler for the
  linear equation \<open>C x' = - G (x - E) + J\<close> over a step \<open>dt\<close>:
  \<open>x \<leftarrow> x + dt / C (- G (x - E) + J)\<close>. For the membrane, \<open>x\<close> is the voltage, \<open>C\<close> the
  capacitance, \<open>G\<close> the conductance, \<open>E\<close> the resting potential and \<open>J\<close> the input
  current plus the sum of the after-spike currents.
\<close>

definition forward_euler_step ::
  "real \<Rightarrow> real \<Rightarrow> real \<Rightarrow> real \<Rightarrow> real \<Rightarrow> real \<Rightarrow> real option" where
  "forward_euler_step dt C G E J x =
     do { q \<leftarrow> checked_div dt C; Some (x + q * (- G * (x - E) + J)) }"

text \<open>
  Modelled from the spec: the body of \<^verbatim>\<open>update\<close> is missing. The closed form with the
  inputs held over the step, \<open>x \<leftarrow> E + J / G + (x - E - J / G) exp (- G dt / C)\<close>; a
  conductance that is exactly zero is special-cased and takes the Euler form.
\<close>

definition exact_step ::
  "real \<Rightarrow> real \<Rightarrow> real \<Rightarrow> real \<Rightarrow> real \<Rightarrow> real \<Rightarrow> real option" where
  "exact_step dt C G E J x =
     (if G = 0 then forward_euler_step dt C G E J x
      else do { j \<leftarrow> checked_div J G;
                r \<leftarrow> checked_div (G * dt) C;
                Some (E + j + (x - E - j) * exp (- r)) })"

text \<open>
  Modelled from the spec: the body of \<^verbatim>\<open>update\<close> is missing. The step of a linear
  equation by the chosen method.
\<close>

fun linear_step ::
  "solver \<Rightarrow> real \<Rightarrow> real \<Rightarrow> real \<Rightarrow> real \<Rightarrow> real \<Rightarrow> real \<Rightarrow> real option" where
  "linear_step ForwardEuler dt C G E J x = forward_euler_step dt C G E J x"
| "linear_step Exact dt C G E J x = exact_step dt C G E J x"

text \<open>
  Modelled from the spec: the body of \<^verbatim>\<open>update\<close> is missing. Step 3 of the per-step
  algorithm: the membrane equation \<open>C_m V' = - G (V - E_L) + I + ASC_sum\<close> over \<open>dt\<close>.
\<close>

definition voltage_update ::
  "solver \<Rightarrow> real \<Rightarrow> real \<Rightarrow> real \<Rightarrow> real \<Rightarrow> real \<Rightarrow> real \<Rightarrow> real \<Rightarrow> real option" where
  "voltage_update m dt C_m G E_L I ASC_sum V = linear_step m dt C_m G E_L (I + ASC_sum) V"

text \<open>
  Modelled from the spec: the body of \<^verbatim>\<open>update\<close> is missing. The adaptive threshold is
  active for the richest variant only, number 5 of \<open>model_type_lu\<close>.
\<close>

definition adaptive_threshold :: "Parameters_' \<Rightarrow> bool" where
  "adaptive_threshold P \<longleftrightarrow> map_of model_type_lu (lowercase (glif_model_' P)) = Some 5"

text \<open>
  Modelled from the spec: the body of \<^verbatim>\<open>update\<close> is missing. Steps 3 and 5 of the
  per-step algorithm, the two that write the voltage and the threshold, for a neuron that
  is integrating; \<open>syn\<close> is the spike input of the step, added to the external current
  (step 2). With the adaptive threshold, the spike component decays by
  \<open>exp (- b_spike dt)\<close>, the voltage component follows
  \<open>c' = a_voltage (V - E_L) - b_voltage c\<close>, \<open>solved with the same method chosen for
  voltage\<close>: the same \<open>linear_step\<close>, with capacity 1, rate \<open>b_voltage\<close>, rest 0 and
  drive \<open>a_voltage (V - E_L)\<close>; the threshold is the baseline plus the two components.
  The components are the members \<^verbatim>\<open>last_spike_\<close> and \<^verbatim>\<open>last_voltage_\<close>.
\<close>

definition integrate_V_threshold ::
  "solver \<Rightarrow> real \<Rightarrow> real \<Rightarrow> Parameters_' \<Rightarrow> State_' \<times> Variables_' \<Rightarrow>
   (State_' \<times> Variables_') option" where
  "integrate_V_threshold m dt syn P SV =
     (case SV of (S, V) \<Rightarrow>
        do { v \<leftarrow> voltage_update m dt (C_m_' P) (G_' P) (E_L_' P) (I_' S + syn)
                    (ASCurrents_sum_' S) (V_m_' S);
             if adaptive_threshold P
             then do { vc \<leftarrow> linear_step m dt 1 (b_voltage_' P) 0
                                (a_voltage_' P * (v - E_L_' P)) (last_voltage_' V);
                       let sp = last_spike_' V * exp (- b_spike_' P * dt) in
                       Some (S\<lparr>V_m_' := v, threshold_' := th_inf_' P + sp + vc\<rparr>,
                             V\<lparr>last_spike_' := sp, last_voltage_' := vc\<rparr>) }
             else Some (S\<lparr>V_m_' := v\<rparr>, V) })"

section \<open>Concrete objects for the examples\<close>

definition params0 :: Parameters_' where
  "params0 =
    \<lparr>V_reset_' = -70, th_inf_' = -50, G_' = 5, E_L_' = -70, C_m_' = 100, t_ref_' = 2,
     a_spike_' = 0, b_spike_' = 0, voltage_reset_a_' = 0, voltage_reset_b_' = 0,
     a_voltage_' = 0, b_voltage_' = 0,
     asc_init_' = [0, 0], k_' = [1 / 100, 1 / 10], asc_amps_' = [10, -5], r_' = [1, 1],
     V_dynamics_method_' = ''linear_exact'', glif_model_' = ''lif_r_asc_a''\<rparr>"

definition state0 :: State_' where
  "state0 = \<lparr>V_m_' = -70, ASCurrents_' = [1, 2], ASCurrents_sum_' = 3, threshold_' = -50, I_' = 0\<rparr>"

definition vars0 :: Variables_' where
  "vars0 = \<lparr>t_ref_remaining_' = 0, t_ref_total_' = 2, last_spike_' = 0, last_voltage_' = 0,
            method_' = 1\<rparr>"

definition neuron0 :: "(unit, nat) glif" where
  "neuron0 = \<lparr>get_name = ''glif'', archiving = (), P_' = params0, S_' = state0, V_' = vars0,
              B_' = \<lparr>spikes_' = [], currents_' = [], logger_' = 0\<rparr>\<rparr>"

text \<open>
  Setters for the examples. The dictionary holds a new capacitance and a new list of
  after-spike currents. The parameter setter writes the capacitance, then rejects a
  value that is not positive; the state setter writes the currents, then rejects a list
  whose length differs from the channels of the parameters it is given.
\<close>

definition Parameters_set0 :: "real \<times> real list \<Rightarrow> Parameters_' \<Rightarrow> error option \<times> Parameters_'" where
  "Parameters_set0 d p =
     (if fst d \<le> 0 then Some (BadProperty ''Capacitance must be strictly positive.'') else None,
      p\<lparr>C_m_' := fst d\<rparr>)"

definition State_set0 ::
  "real \<times> real list \<Rightarrow> Parameters_' \<Rightarrow> State_' \<Rightarrow> error option \<times> State_'" where
  "State_set0 d p s =
     (if length (snd d) = length (asc_init_' p) then None
      else Some (BadProperty ''Wrong number of after-spike currents.''),
      s\<lparr>ASCurrents_' := snd d\<rparr>)"

definition Archiving_set0 :: "real \<times> real list \<Rightarrow> unit \<Rightarrow> error option \<times> unit" where
  "Archiving_set0 d a = (None, a)"

definition channels_match :: "Parameters_' \<Rightarrow> State_' \<Rightarrow> bool" where
  "channels_match p s \<longleftrightarrow> length (ASCurrents_' s) = length (asc_init_' p)"



section \<open>Properties\<close>

subsection \<open>The after-spike-current observable\<close>

text \<open>
  C1. The claim: sampling the after-spike-current-sum observable returns the sum of all
  channels (the cached \<^verbatim>\<open>ASCurrents_sum_\<close>). The accessor of that name returns the first
  channel instead: with the channels 1 and 2 and the cached sum 3 it returns 1.
\<close>

theorem get_AScurrents_sum_returns_first_channel:
  "get_AScurrents_sum_' neuron0 = Some 1 \<and>
   ASCurrents_sum_' (S_' neuron0) = 3 \<and>
   sum_list (ASCurrents_' (S_' neuron0)) = 3"
  by (simp add: get_AScurrents_sum_'_def vector_at_def neuron0_def state0_def)

text \<open>
  C9. The accessor reads \<^verbatim>\<open>ASCurrents_[ 0 ]\<close> without a test of the size: the read is
  defined exactly when there is at least one channel, it is then the first channel, and
  with no channel it is out of bounds.
\<close>

theorem get_AScurrents_sum_unguarded:
  "get_AScurrents_sum_' n =
     (if 1 \<le> length (ASCurrents_' (S_' n)) then Some (ASCurrents_' (S_' n) ! 0) else None)"
  by (simp add: get_AScurrents_sum_'_def vector_at_def Suc_le_eq)

subsection \<open>set_status\<close>

text \<open>
  C2. Whenever \<^verbatim>\<open>set_status\<close> ends in an exception, whichever setter threw it and
  whatever that setter had written to its temporary before, the live \<^verbatim>\<open>P_\<close> and \<^verbatim>\<open>S_\<close>
  of the neuron are the ones from before the call.
\<close>

theorem set_status_atomic:
  assumes "set_status Parameters_set State_set Archiving_Node_set_status d n = (Some e, n')"
  shows "P_' n' = P_' n \<and> S_' n' = S_' n"
  using assms
  by (auto simp: set_status_def Let_def split: prod.splits option.splits)

theorem set_status_atomic_witness:
  "fst (set_status Parameters_set0 State_set0 Archiving_set0 (- 1, [7]) neuron0)
     = Some (BadProperty ''Capacitance must be strictly positive.'') \<and>
   P_' (snd (set_status Parameters_set0 State_set0 Archiving_set0 (- 1, [7]) neuron0)) = params0 \<and>
   S_' (snd (set_status Parameters_set0 State_set0 Archiving_set0 (- 1, [7]) neuron0)) = state0 \<and>
   fst (set_status Parameters_set0 State_set0 Archiving_set0 (200, [7]) neuron0)
     = Some (BadProperty ''Wrong number of after-spike currents.'') \<and>
   P_' (snd (set_status Parameters_set0 State_set0 Archiving_set0 (200, [7]) neuron0)) = params0 \<and>
   S_' (snd (set_status Parameters_set0 State_set0 Archiving_set0 (200, [7]) neuron0)) = state0"
proof -
  have live: "P_' neuron0 = params0" "S_' neuron0 = state0"
    by (simp_all add: neuron0_def)
  have p1: "fst (set_status Parameters_set0 State_set0 Archiving_set0 (- 1, [7]) neuron0)
      = Some (BadProperty ''Capacitance must be strictly positive.'')"
    by (simp add: set_status_def Parameters_set0_def)
  then have "set_status Parameters_set0 State_set0 Archiving_set0 (- 1, [7]) neuron0
      = (Some (BadProperty ''Capacitance must be strictly positive.''),
         snd (set_status Parameters_set0 State_set0 Archiving_set0 (- 1, [7]) neuron0))"
    by (simp add: prod_eq_iff)
  then have k1:
    "P_' (snd (set_status Parameters_set0 State_set0 Archiving_set0 (- 1, [7]) neuron0)) = P_' neuron0 \<and>
     S_' (snd (set_status Parameters_set0 State_set0 Archiving_set0 (- 1, [7]) neuron0)) = S_' neuron0"
    by (rule set_status_atomic)
  have p2: "fst (set_status Parameters_set0 State_set0 Archiving_set0 (200, [7]) neuron0)
      = Some (BadProperty ''Wrong number of after-spike currents.'')"
    by (simp add: set_status_def Parameters_set0_def State_set0_def neuron0_def params0_def)
  then have "set_status Parameters_set0 State_set0 Archiving_set0 (200, [7]) neuron0
      = (Some (BadProperty ''Wrong number of after-spike currents.''),
         snd (set_status Parameters_set0 State_set0 Archiving_set0 (200, [7]) neuron0))"
    by (simp add: prod_eq_iff)
  then have k2:
    "P_' (snd (set_status Parameters_set0 State_set0 Archiving_set0 (200, [7]) neuron0)) = P_' neuron0 \<and>
     S_' (snd (set_status Parameters_set0 State_set0 Archiving_set0 (200, [7]) neuron0)) = S_' neuron0"
    by (rule set_status_atomic)
  from p1 k1 p2 k2 live show ?thesis by simp
qed

text \<open>
  C10. \<^verbatim>\<open>set_status\<close> gives \<^verbatim>\<open>State_::set\<close> the new parameters \<^verbatim>\<open>ptmp\<close>, not the live
  ones, and commits that pair: for every relation between parameters and state that
  \<^verbatim>\<open>State_::set\<close> establishes whenever it returns, between the parameters it is given
  and the state it leaves, the committed \<^verbatim>\<open>S_\<close> and \<^verbatim>\<open>P_\<close> are in the relation after
  every successful call, for every dictionary.
\<close>

theorem set_status_commits_checked_state:
  assumes contract: "\<And>p s s'. State_set d p s = (None, s') \<Longrightarrow> consistent p s'"
    and ok: "set_status Parameters_set State_set Archiving_Node_set_status d n = (None, n')"
  shows "\<exists>ptmp stmp. Parameters_set d (P_' n) = (None, ptmp) \<and>
           State_set d ptmp (S_' n) = (None, stmp) \<and>
           P_' n' = ptmp \<and> S_' n' = stmp \<and> consistent (P_' n') (S_' n')"
  using ok contract
  by (auto simp: set_status_def Let_def split: prod.splits option.splits)

theorem set_status_commits_checked_state_witness:
  "fst (set_status Parameters_set0 State_set0 Archiving_set0 (200, [7, 8]) neuron0) = None \<and>
   channels_match
     (P_' (snd (set_status Parameters_set0 State_set0 Archiving_set0 (200, [7, 8]) neuron0)))
     (S_' (snd (set_status Parameters_set0 State_set0 Archiving_set0 (200, [7, 8]) neuron0)))"
proof -
  have contract: "\<And>p s s'. State_set0 (200, [7, 8]) p s = (None, s') \<Longrightarrow> channels_match p s'"
    by (auto simp: State_set0_def channels_match_def split: if_splits)
  have none: "fst (set_status Parameters_set0 State_set0 Archiving_set0 (200, [7, 8]) neuron0) = None"
    by (simp add: set_status_def Parameters_set0_def State_set0_def Archiving_set0_def
        neuron0_def params0_def)
  then have ok: "set_status Parameters_set0 State_set0 Archiving_set0 (200, [7, 8]) neuron0
      = (None, snd (set_status Parameters_set0 State_set0 Archiving_set0 (200, [7, 8]) neuron0))"
    by (simp add: prod_eq_iff)
  have "\<exists>ptmp stmp. Parameters_set0 (200, [7, 8]) (P_' neuron0) = (None, ptmp) \<and>
      State_set0 (200, [7, 8]) ptmp (S_' neuron0) = (None, stmp) \<and>
      P_' (snd (set_status Parameters_set0 State_set0 Archiving_set0 (200, [7, 8]) neuron0)) = ptmp \<and>
      S_' (snd (set_status Parameters_set0 State_set0 Archiving_set0 (200, [7, 8]) neuron0)) = stmp \<and>
      channels_match
        (P_' (snd (set_status Parameters_set0 State_set0 Archiving_set0 (200, [7, 8]) neuron0)))
        (S_' (snd (set_status Parameters_set0 State_set0 Archiving_set0 (200, [7, 8]) neuron0)))"
    by (rule set_status_commits_checked_state [where consistent = channels_match, OF contract ok])
  then have "channels_match
        (P_' (snd (set_status Parameters_set0 State_set0 Archiving_set0 (200, [7, 8]) neuron0)))
        (S_' (snd (set_status Parameters_set0 State_set0 Archiving_set0 (200, [7, 8]) neuron0)))"
    by blast
  with none show ?thesis by simp
qed

subsection \<open>Connection tests\<close>




subsection \<open>The table of model variants\<close>

text \<open>
  C6. The lookup of model variants is a table of data: each of its fifteen keys, the two
  names and the numeral of each of the five variants, maps to the number of its
  variant; in particular \<open>lif_r_asc_a\<close>, \<open>glif_lif_r_asc_a\<close> and \<open>5\<close> map to 5. The
  table has no other key, and the numbers it maps to are exactly 1 to 5.
\<close>

theorem model_type_lu_table:
  "map_of model_type_lu ''lif'' = Some 1 \<and>
   map_of model_type_lu ''glif_lif'' = Some 1 \<and>
   map_of model_type_lu ''1'' = Some 1 \<and>
   map_of model_type_lu ''lif_r'' = Some 2 \<and>
   map_of model_type_lu ''glif_lif_r'' = Some 2 \<and>
   map_of model_type_lu ''2'' = Some 2 \<and>
   map_of model_type_lu ''lif_asc'' = Some 3 \<and>
   map_of model_type_lu ''glif_lif_asc'' = Some 3 \<and>
   map_of model_type_lu ''3'' = Some 3 \<and>
   map_of model_type_lu ''lif_r_asc'' = Some 4 \<and>
   map_of model_type_lu ''glif_lif_r_asc'' = Some 4 \<and>
   map_of model_type_lu ''4'' = Some 4 \<and>
   map_of model_type_lu ''lif_r_asc_a'' = Some 5 \<and>
   map_of model_type_lu ''glif_lif_r_asc_a'' = Some 5 \<and>
   map_of model_type_lu ''5'' = Some 5 \<and>
   dom (map_of model_type_lu) =
     {''lif'', ''glif_lif'', ''1'', ''lif_r'', ''glif_lif_r'', ''2'',
      ''lif_asc'', ''glif_lif_asc'', ''3'', ''lif_r_asc'', ''glif_lif_r_asc'', ''4'',
      ''lif_r_asc_a'', ''glif_lif_r_asc_a'', ''5''} \<and>
   ran (map_of model_type_lu) = {1, 2, 3, 4, 5}"
proof -
  have keys: "distinct (map fst model_type_lu)"
    by (simp add: model_type_lu_def)
  have "ran (map_of model_type_lu) = snd ` set model_type_lu"
    using keys by (rule ran_distinct)
  also have "\<dots> = {1, 2, 3, 4, 5}"
    by (auto simp: model_type_lu_def)
  finally have image: "ran (map_of model_type_lu) = {1, 2, 3, 4, 5}" .
  have domain: "dom (map_of model_type_lu) = fst ` set model_type_lu"
    by (rule dom_map_of_conv_image_fst)
  show ?thesis
    unfolding image domain by (simp add: model_type_lu_def)
qed

subsection \<open>Validation\<close>

text \<open>
  C7. Validation fails, with a configuration error and no snapshot, exactly when the
  capacitance is not positive, the conductance or the refractory duration is negative,
  the four arrays of after-spike currents differ in length, or the token of the model
  variant or of the integration method is unknown; when it succeeds the snapshot holds
  the values of the configuration. (No state is among the arguments or the results of
  \<open>validate\<close>.)
\<close>

theorem validate_rejects:
  "(isl (validate c) \<longleftrightarrow>
      C_m_' c \<le> 0 \<or> G_' c < 0 \<or> t_ref_' c < 0 \<or> \<not> asc_lengths_agree c \<or>
      map_of model_type_lu (lowercase (glif_model_' c)) = None \<or>
      map_of V_dynamics_method_lu (lowercase (V_dynamics_method_' c)) = None) \<and>
   (\<forall>e. validate c = Inl e \<longrightarrow> (\<exists>msg. e = BadProperty msg)) \<and>
   (\<forall>p. validate c = Inr p \<longrightarrow> p = c)"
  by (auto simp: validate_def split: if_splits)

theorem validate_rejects_witness:
  "validate params0 = Inr params0 \<and>
   isl (validate (params0\<lparr>C_m_' := - 1\<rparr>)) \<and>
   isl (validate (params0\<lparr>glif_model_' := ''glif6''\<rparr>))"
proof -
  have good: "\<not> isl (validate params0)"
    using validate_rejects [of params0]
    by (simp add: params0_def asc_lengths_agree_def lowercase_def to_lower_def
        model_type_lu_def V_dynamics_method_lu_def)
  then have "validate params0 = Inr params0"
    using validate_rejects [of params0] by (cases "validate params0") auto
  moreover have "isl (validate (params0\<lparr>C_m_' := - 1\<rparr>))"
    using validate_rejects [of "params0\<lparr>C_m_' := - 1\<rparr>"] by simp
  moreover have "isl (validate (params0\<lparr>glif_model_' := ''glif6''\<rparr>))"
    using validate_rejects [of "params0\<lparr>glif_model_' := ''glif6''\<rparr>"]
    by (simp add: lowercase_def to_lower_def model_type_lu_def)
  ultimately show ?thesis by simp
qed

subsection \<open>The voltage update\<close>

lemma linear_step_zero_rate:
  assumes "G = 0" and "C \<noteq> 0"
  shows "linear_step m dt C G E J x = Some (x + dt / C * J)"
  using assms
  by (cases m) (simp_all add: exact_step_def forward_euler_step_def checked_div_def)

lemma linear_step_unit_capacity: "\<exists>y. linear_step m dt 1 G E J x = Some y"
  by (cases m) (simp_all add: exact_step_def forward_euler_step_def checked_div_def)

lemma integrate_V_threshold_defined:
  assumes "voltage_update m dt (C_m_' P) (G_' P) (E_L_' P) (I_' S + syn) (ASCurrents_sum_' S) (V_m_' S)
      = Some v"
  shows "\<exists>S' V'. integrate_V_threshold m dt syn P (S, V) = Some (S', V') \<and> V_m_' S' = v"
proof (cases "adaptive_threshold P")
  case True
  obtain vc where "linear_step m dt 1 (b_voltage_' P) 0 (a_voltage_' P * (v - E_L_' P))
      (last_voltage_' V) = Some vc"
    using linear_step_unit_capacity by blast
  with assms True show ?thesis
    by (simp add: integrate_V_threshold_def Let_def)
next
  case False
  with assms show ?thesis
    by (simp add: integrate_V_threshold_def)
qed

text \<open>
  C3. With a positive conductance (and a capacitance that is not zero) one step of the
  exact method takes the voltage to
  \<open>E_L + (I + ASC_sum) / G + (V - E_L - (I + ASC_sum) / G) exp (- G dt / C_m)\<close>; with
  \<open>C_m = 100\<close>, \<open>G = 5\<close>, \<open>E_L = - 70\<close>, \<open>I = 50\<close>, \<open>ASC_sum = 0\<close> and \<open>dt = 0.1\<close> it
  takes the voltage \<open>- 70\<close> to a value strictly between \<open>- 70\<close> and \<open>- 60\<close>.
\<close>

theorem exact_voltage_update:
  assumes "0 < G" and "C_m \<noteq> 0"
  shows "voltage_update Exact dt C_m G E_L I ASC_sum V
           = Some (E_L + (I + ASC_sum) / G + (V - E_L - (I + ASC_sum) / G) * exp (- G * dt / C_m)) \<and>
         (\<exists>v. voltage_update Exact (1 / 10) 100 5 (- 70) 50 0 (- 70) = Some v \<and> - 70 < v \<and> v < - 60)"
proof
  show "voltage_update Exact dt C_m G E_L I ASC_sum V
           = Some (E_L + (I + ASC_sum) / G + (V - E_L - (I + ASC_sum) / G) * exp (- G * dt / C_m))"
    using assms by (simp add: voltage_update_def exact_step_def checked_div_def)
next
  have step: "voltage_update Exact (1 / 10) 100 5 (- 70) 50 0 (- 70)
      = Some (- 60 - 10 * exp (- (1 / 200)))"
    by (simp add: voltage_update_def exact_step_def checked_div_def)
  have "0 < exp (- (1 / 200) :: real)" "exp (- (1 / 200) :: real) < 1"
    by simp_all
  then have "- 70 < - 60 - 10 * exp (- (1 / 200) :: real)"
    "- 60 - 10 * exp (- (1 / 200) :: real) < - 60"
    by simp_all
  with step show "\<exists>v. voltage_update Exact (1 / 10) 100 5 (- 70) 50 0 (- 70) = Some v \<and>
      - 70 < v \<and> v < - 60"
    by blast
qed

theorem exact_voltage_update_witness:
  "voltage_update Exact (1 / 10) 100 5 (- 70) 50 0 (- 70) = Some (- 60 - 10 * exp (- (1 / 200)))"
  using exact_voltage_update [of 5 100 "1 / 10" "- 70" 50 0 "- 70"]
  by simp

text \<open>
  C4. In a step whose conductance is exactly zero (the capacitance is not zero), by
  either method, the voltage update is the pure integration of the current,
  \<open>V \<leftarrow> V + dt / C_m (I + ASC_sum)\<close>: the branch for a zero conductance divides by
  nothing that is zero, and the step writes a voltage and a threshold that are defined.
\<close>

theorem zero_conductance_step:
  assumes "G_' P = 0" and "C_m_' P \<noteq> 0"
  shows "voltage_update m dt (C_m_' P) (G_' P) (E_L_' P) I ASC_sum V_m
           = Some (V_m + dt / C_m_' P * (I + ASC_sum)) \<and>
         (\<exists>S' V'. integrate_V_threshold m dt syn P (S, V) = Some (S', V') \<and>
            V_m_' S' = V_m_' S + dt / C_m_' P * (I_' S + syn + ASCurrents_sum_' S))"
proof
  show "voltage_update m dt (C_m_' P) (G_' P) (E_L_' P) I ASC_sum V_m
           = Some (V_m + dt / C_m_' P * (I + ASC_sum))"
    unfolding voltage_update_def using assms by (rule linear_step_zero_rate)
next
  have "voltage_update m dt (C_m_' P) (G_' P) (E_L_' P) (I_' S + syn) (ASCurrents_sum_' S) (V_m_' S)
      = Some (V_m_' S + dt / C_m_' P * (I_' S + syn + ASCurrents_sum_' S))"
    unfolding voltage_update_def using assms by (rule linear_step_zero_rate)
  then show "\<exists>S' V'. integrate_V_threshold m dt syn P (S, V) = Some (S', V') \<and>
            V_m_' S' = V_m_' S + dt / C_m_' P * (I_' S + syn + ASCurrents_sum_' S)"
    by (rule integrate_V_threshold_defined)
qed

theorem zero_conductance_step_witness:
  "\<exists>S' V'. integrate_V_threshold Exact (1 / 10) 0 (params0\<lparr>G_' := 0\<rparr>) (state0, vars0) = Some (S', V') \<and>
     V_m_' S' = - 70 + 3 / 1000"
  using zero_conductance_step [of "params0\<lparr>G_' := 0\<rparr>" Exact "1 / 10" 0 0 0 0 state0 vars0]
  by (simp add: params0_def state0_def)

end
